theory Spec2Isabelle
  imports Complex_Main
begin

section \<open>Arrays and errors\<close>

text \<open>
  The program (\<^verbatim>\<open>DoSFuncs.py\<close>) computes with numpy arrays of floats.  A one-dimensional
  array is a list of reals, a two-dimensional array is the list of its rows.  Floats are
  idealised as reals; every theorem below that depends on a division or a square root
  carries the hypotheses under which numpy's result is an ordinary finite number, so that
  the real-valued reading and the float-valued reading compute the same expression.

  An exception raised by Python or numpy is a value of \<open>error\<close>.  \<open>NotFinite\<close> is not an
  exception: it marks a place where numpy would store \<^verbatim>\<open>nan\<close> or \<^verbatim>\<open>inf\<close> (a division by
  zero, a square root of a negative number) and go on; real arithmetic cannot follow such
  a value, so the model reports it instead.
\<close>

type_synonym array1 = "real list"
type_synonym array2 = "real list list"

datatype error = IndexError | ValueError | NotFinite

definition has_shape :: "array2 \<Rightarrow> nat \<Rightarrow> nat \<Rightarrow> bool" where
  "has_shape v n m = (length v = n \<and> list_all (\<lambda>row. length row = m) v)"

definition same_shape :: "array2 \<Rightarrow> array2 \<Rightarrow> bool" where
  "same_shape x y = (map length x = map length y)"

text \<open>\<^verbatim>\<open>np.zeros((n, m))\<close>; numpy refuses a negative dimension with a ValueError.\<close>

definition zeros :: "int \<Rightarrow> int \<Rightarrow> error + array2" where
  "zeros n m = (if n < 0 \<or> m < 0 then Inl ValueError
                else Inr (replicate (nat n) (replicate (nat m) 0)))"

text \<open>Elementwise sum of two arrays of the same shape.\<close>

definition add2 :: "array2 \<Rightarrow> array2 \<Rightarrow> array2" where
  "add2 x y = map2 (map2 (+)) x y"

text \<open>\<^verbatim>\<open>np.meshgrid(x, y)\<close>: two arrays of shape \<open>(len y, len x)\<close>.\<close>

definition meshgrid :: "array1 \<Rightarrow> array1 \<Rightarrow> array2 \<times> array2" where
  "meshgrid x y = (replicate (length y) x, map (\<lambda>v. replicate (length x) v) y)"

section \<open>Geometric visibility model: \<^verbatim>\<open>one_DoS_grid\<close>\<close>

text \<open>
  \<^verbatim>\<open>one_DoS_grid\<close> works on whole arrays through boolean masks; every operation in it is
  elementwise, so at one grid point it computes the following.  The names are the
  source's: the \<open>g\<close> block is the part under the mask \<^verbatim>\<open>smax < a\<close>, the \<open>l\<close> block the part
  under \<^verbatim>\<open>smax >= a\<close>.
\<close>

definition fg :: "real \<Rightarrow> real \<Rightarrow> real \<Rightarrow> real \<Rightarrow> real \<Rightarrow> real \<Rightarrow> real" where
  "fg ag Rg p smin smax Cgmin =
    (let b1g = arcsin (smin / ag);
         b2g = pi - arcsin (smin / ag);
         b3g = arcsin (smax / ag);
         b4g = pi - arcsin (smax / ag);
         C1g = p * (Rg / ag)^2 * cos (b1g / 2) ^ 4;
         C2g = p * (Rg / ag)^2 * cos (b2g / 2) ^ 4;
         C3g = p * (Rg / ag)^2 * cos (b3g / 2) ^ 4;
         C4g = p * (Rg / ag)^2 * cos (b4g / 2) ^ 4;
         C2g = (if C2g < Cgmin then Cgmin else C2g);
         C3g = (if C3g < Cgmin then Cgmin else C3g);
         vals = (C3g > C1g);
         C3g = (if vals then 0 else C3g);
         C1g = (if vals then 0 else C1g);
         vals = (C2g > C4g);
         C2g = (if vals then 0 else C2g);
         C4g = (if vals then 0 else C4g)
     in ag / sqrt (p * Rg^2) * (sqrt C4g - sqrt C2g + sqrt C1g - sqrt C3g))"

definition fl :: "real \<Rightarrow> real \<Rightarrow> real \<Rightarrow> real \<Rightarrow> real \<Rightarrow> real" where
  "fl al Rl p smin Clmin =
    (let b1l = (if smin / al < 1 then arcsin (smin / al) else 0);
         b2l = (if smin / al < 1 then pi - arcsin (smin / al) else pi);
         C1l = (if smin / al < 1 then p * (Rl / al)^2 * cos (b1l / 2) ^ 4 else 1);
         C2l = (if smin / al < 1 then p * (Rl / al)^2 * cos (b2l / 2) ^ 4 else 1);
         C2l = (if C2l < Clmin then Clmin else C2l);
         vals = (C2l > C1l);
         C1l = (if vals then 0 else C1l);
         C2l = (if vals then 0 else C2l)
     in al / sqrt (p * Rl^2) * (sqrt C1l - sqrt C2l))"

definition one_DoS_point :: "real \<Rightarrow> real \<Rightarrow> real \<Rightarrow> real \<Rightarrow> real \<Rightarrow> real \<Rightarrow> real" where
  "one_DoS_point a R p smin smax Cmin =
    (let f = 0;
         f = (if smax < a then fg a R p smin smax Cmin else f);
         f = (if smax \<ge> a then fl a R p smin Cmin else f);
         f = (if smin > a then 0 else f)
     in f)"

text \<open>
  The whole grid.  \<^verbatim>\<open>R[smax<a]\<close> and \<^verbatim>\<open>Cmin[smax<a]\<close> index with a mask of the shape of
  \<open>a\<close>; numpy raises IndexError when the shapes differ.
\<close>

definition one_DoS_grid ::
    "array2 \<Rightarrow> array2 \<Rightarrow> real \<Rightarrow> real \<Rightarrow> real \<Rightarrow> array2 \<Rightarrow> error + array2" where
  "one_DoS_grid a R p smin smax Cmin =
    (if same_shape a R \<and> same_shape a Cmin
     then Inr (map (\<lambda>(arow, Rrow, Crow).
                 map (\<lambda>(x, y, c). one_DoS_point x y p smin smax c) (zip arow (zip Rrow Crow)))
               (zip a (zip R Cmin)))
     else Inl IndexError)"

section \<open>Bin integrator: \<^verbatim>\<open>one_DoS_bins\<close>\<close>

text \<open>
  The expression \<^verbatim>\<open>0.25*(tmp[:-1,:-1]+tmp[1:,:-1]+tmp[:-1,1:]+tmp[1:,1:])\<close>.  A slice
  \<^verbatim>\<open>[:-1]\<close> drops the last element and \<^verbatim>\<open>[1:]\<close> the first; on an empty axis both give
  the empty axis, as \<open>butlast\<close> and \<open>tl\<close> do.
\<close>

definition corner_mean :: "array2 \<Rightarrow> array2" where
  "corner_mean tmp =
     map (map (\<lambda>s. 0.25 * s))
       (add2 (add2 (add2 (map butlast (butlast tmp)) (map butlast (tl tmp)))
                   (map tl (butlast tmp)))
             (map tl (tl tmp)))"

definition one_DoS_bins ::
    "array2 \<Rightarrow> array2 \<Rightarrow> real \<Rightarrow> real \<Rightarrow> real \<Rightarrow> array2 \<Rightarrow> error + array2" where
  "one_DoS_bins a R p smin smax Cmin =
    (case one_DoS_grid a R p smin smax Cmin of
       Inl e \<Rightarrow> Inl e
     | Inr tmp \<Rightarrow> Inr (corner_mean tmp))"

section \<open>Depth-of-search aggregator: \<^verbatim>\<open>DoS_sum\<close>\<close>

text \<open>
  Two library routines are used by \<^verbatim>\<open>DoS_sum\<close> and are not part of the repository; they are
  parameters of the model:
  \<^item> \<open>spline WA C\<close> stands for
    \<^verbatim>\<open>interpolate.InterpolatedUnivariateSpline(WA, C, k=1, ext=3)\<close>, which either raises or
    returns the interpolant;
  \<^item> \<open>quad f lo hi\<close> stands for the first component of
    \<^verbatim>\<open>integrate.quad(f, lo, hi, epsabs=0, epsrel=1e-3, limit=100)\<close>.
\<close>

type_synonym spline_fn = "array1 \<Rightarrow> array1 \<Rightarrow> error + (real \<Rightarrow> real)"
type_synonym quad_fn = "(real \<Rightarrow> real) \<Rightarrow> real \<Rightarrow> real \<Rightarrow> real"

text \<open>
  The body of the inner loop: the value stored in \<^verbatim>\<open>Cmin[j]\<close> for the sample \<open>aj = a[j]\<close> of
  star \<open>i\<close>.  \<^verbatim>\<open>smin[i]\<close> is in range (the outer loop runs over \<^verbatim>\<open>range(len(smin))\<close>);
  \<^verbatim>\<open>smax[i]\<close> and \<^verbatim>\<open>dist[i]\<close> are read in the \<^verbatim>\<open>else\<close> branch only (the array \<^verbatim>\<open>dist\<close> is
  written \<open>dist_pc\<close>, since \<open>dist\<close> is the name of the metric in HOL).  The divisions and square
  roots are numpy operations on floats: where the operand is outside their domain the result
  is \<^verbatim>\<open>nan\<close> or \<^verbatim>\<open>inf\<close>, reported as \<open>NotFinite\<close>.  In particular \<^verbatim>\<open>val/(tup - tlow)\<close> is not
  guarded in the source.
\<close>

definition expected_Cmin ::
    "quad_fn \<Rightarrow> (real \<Rightarrow> real) \<Rightarrow> array1 \<Rightarrow> array1 \<Rightarrow> nat \<Rightarrow> real \<Rightarrow> real \<Rightarrow> error + real" where
  "expected_Cmin quad Cs smax dist_pc i smin_i aj =
    (if aj < smin_i then Inr 1
     else if \<not> i < length smax then Inl IndexError
     else
       (let su = (if aj > smax ! i then smax ! i else aj) in
        if \<not> i < length dist_pc then Inl IndexError
        else if aj = 0 \<or> 1 - (smin_i / aj)^2 < 0 \<or> 1 - (su / aj)^2 < 0 then Inl NotFinite
        else
          (let tup = sqrt (1 - (smin_i / aj)^2);
               tlow = sqrt (1 - (su / aj)^2);
               f = (\<lambda>t. Cs (aj * sqrt (1 - t^2) / dist_pc ! i));
               val = quad f tlow tup
           in if tup - tlow = 0 then Inl NotFinite else Inr (val / (tup - tlow)))))"

text \<open>A \<^verbatim>\<open>for\<close> loop that fills an array and stops at the first error.\<close>

fun map_err :: "('a \<Rightarrow> error + 'b) \<Rightarrow> 'a list \<Rightarrow> error + 'b list" where
  "map_err f [] = Inr []"
| "map_err f (x # xs) =
     (case f x of
        Inl e \<Rightarrow> Inl e
      | Inr y \<Rightarrow> (case map_err f xs of Inl e \<Rightarrow> Inl e | Inr ys \<Rightarrow> Inr (y # ys)))"

text \<open>The body of the outer loop for star \<open>i\<close>: the array \<^verbatim>\<open>tmp\<close> that is added to \<^verbatim>\<open>DoS\<close>.\<close>

definition star_DoS ::
    "spline_fn \<Rightarrow> quad_fn \<Rightarrow> array1 \<Rightarrow> array2 \<Rightarrow> array1 \<Rightarrow> real \<Rightarrow> array1 \<Rightarrow> array1 \<Rightarrow> array1 \<Rightarrow>
     array2 \<Rightarrow> array1 \<Rightarrow> nat \<Rightarrow> error + array2" where
  "star_DoS spline quad a aa R pexp smin smax dist_pc C_inst WA i =
    (if \<not> i < length C_inst then Inl IndexError
     else case spline WA (C_inst ! i) of
       Inl e \<Rightarrow> Inl e
     | Inr Cs \<Rightarrow>
        (case map_err (expected_Cmin quad Cs smax dist_pc i (smin ! i)) a of
           Inl e \<Rightarrow> Inl e
         | Inr Cmin \<Rightarrow>
            (let (CC, RR) = meshgrid Cmin R in
             if \<not> i < length smax then Inl IndexError
             else one_DoS_bins aa RR pexp (smin ! i) (smax ! i) CC)))"

text \<open>
  \<^verbatim>\<open>aa.shape[0]\<close> and \<^verbatim>\<open>aa.shape[1]\<close>.  An array without rows is written \<open>[]\<close>, whatever its
  second dimension; \<open>DoS_sum\<close> fails on it before the second dimension matters.
\<close>

definition shape0 :: "array2 \<Rightarrow> int" where
  "shape0 v = int (length v)"

definition shape1 :: "array2 \<Rightarrow> int" where
  "shape1 v = (case v of [] \<Rightarrow> 0 | row # _ \<Rightarrow> int (length row))"

text \<open>
  The outer loop, \<^verbatim>\<open>for i in xrange(len(smin))\<close>, with the running total \<^verbatim>\<open>DoS\<close>.  Each \<^verbatim>\<open>tmp\<close>
  has the shape of \<^verbatim>\<open>DoS\<close> (one less than \<open>aa\<close> in each dimension), so \<^verbatim>\<open>DoS += tmp\<close> adds
  elementwise.
\<close>

fun DoS_sum_loop :: "(nat \<Rightarrow> error + array2) \<Rightarrow> array2 \<Rightarrow> nat list \<Rightarrow> error + array2" where
  "DoS_sum_loop body DoS [] = Inr DoS"
| "DoS_sum_loop body DoS (i # rest) =
     (case body i of
        Inl e \<Rightarrow> Inl e
      | Inr tmp \<Rightarrow> DoS_sum_loop body (add2 DoS tmp) rest)"

definition DoS_sum ::
    "spline_fn \<Rightarrow> quad_fn \<Rightarrow> array1 \<Rightarrow> array2 \<Rightarrow> array1 \<Rightarrow> array2 \<Rightarrow> real \<Rightarrow> array1 \<Rightarrow> array1 \<Rightarrow>
     array1 \<Rightarrow> array2 \<Rightarrow> array1 \<Rightarrow> error + array2" where
  "DoS_sum spline quad a aa R RR pexp smin smax dist_pc C_inst WA =
    (case zeros (shape0 aa - 1) (shape1 aa - 1) of
       Inl e \<Rightarrow> Inl e
     | Inr DoS \<Rightarrow>
         DoS_sum_loop (star_DoS spline quad a aa R pexp smin smax dist_pc C_inst WA) DoS
           [0..<length smin])"

text \<open>
  The caller's guard in \<^verbatim>\<open>__init__\<close> (lines 241 to 245).  \<open>nStars\<close> is
  \<^verbatim>\<open>self.sim.TargetList.nStars\<close>, the number of stars kept by the selection.
\<close>

definition init_DoS ::
    "spline_fn \<Rightarrow> quad_fn \<Rightarrow> nat \<Rightarrow> array1 \<Rightarrow> array2 \<Rightarrow> array1 \<Rightarrow> array2 \<Rightarrow> real \<Rightarrow> array1 \<Rightarrow>
     array1 \<Rightarrow> array1 \<Rightarrow> array2 \<Rightarrow> array1 \<Rightarrow> error + array2" where
  "init_DoS spline quad nStars aedges aa Redges RR pexp smin smax dist_pc C_inst WA =
    (if nStars > 0
     then DoS_sum spline quad aedges aa Redges RR pexp smin smax dist_pc C_inst WA
     else zeros (shape0 aa - 1) (shape1 aa - 1))"

section \<open>The offset added to ck in \<^verbatim>\<open>__init__\<close>\<close>

text \<open>
  \<^verbatim>\<open>ck += ck[ck>0.0].min()*1e-2\<close>.  The minimum of an empty selection raises ValueError.
\<close>

definition ck_offset :: "array1 \<Rightarrow> error + array1" where
  "ck_offset ck =
    (let pos = filter (\<lambda>c. c > 0) ck in
     if pos = [] then Inl ValueError
     else Inr (map (\<lambda>c. c + Min (set pos) * 0.01) ck))"

section \<open>Star selection: \<^verbatim>\<open>select_obs\<close>\<close>

text \<open>
  \<^verbatim>\<open>select_obs\<close> states an integer program and hands it to the CBC solver of OR-tools
  (\<^verbatim>\<open>pywraplp\<close>), which is not part of the repository.  The program has one integer variable
  per entry of \<open>ck\<close>, each with bounds 0 and 1, one constraint
  \<open>-\<infinity> \<le> \<Sum>j. t0[j] * x[j] \<le> maxTime\<close>, and the objective \<open>\<Sum>j. ck[j] * x[j]\<close>, to be
  maximised.
\<close>

definition dot :: "real list \<Rightarrow> real list \<Rightarrow> real" where
  "dot c x = sum_list (map2 (*) c x)"

text \<open>All assignments of 0 or 1 to the variables, one variable per element of the list.\<close>

fun assignments :: "'a list \<Rightarrow> real list list" where
  "assignments [] = [[]]"
| "assignments (v # vs) = concat (map (\<lambda>x. [0 # x, 1 # x]) (assignments vs))"

datatype result_status = OPTIMAL | INFEASIBLE

text \<open>
  Modelled from the spec: the solver call \<^verbatim>\<open>solver.Solve()\<close> together with
  \<^verbatim>\<open>x.solution_value()\<close>; the solver's code is missing from the sources.  The spec describes
  it as an exact method that solves the 0/1 program to optimality and treats infeasibility
  as a valid outcome with an empty selection.  The model searches all assignments: it
  returns a feasible assignment of greatest objective value, or, when no assignment is
  feasible, the status \<open>INFEASIBLE\<close> with every variable at 0.
\<close>

definition Solve :: "real list \<Rightarrow> real \<Rightarrow> real list \<Rightarrow> result_status \<times> real list" where
  "Solve coeffs ub obj =
    (case filter (\<lambda>x. dot coeffs x \<le> ub) (assignments obj) of
       [] \<Rightarrow> (INFEASIBLE, map (\<lambda>_. 0) obj)
     | x0 # rest \<Rightarrow>
         (OPTIMAL, foldl (\<lambda>best x. if dot obj best < dot obj x then x else best) x0 rest))"

text \<open>
  \<^verbatim>\<open>select_obs\<close>.  The result is the pair of the objective value that the function prints
  (\<^verbatim>\<open>solver.Objective().Value()\<close>) and the index array \<^verbatim>\<open>sInds = np.where(xs2>0)[0]\<close> that it
  returns.  \<^verbatim>\<open>t0[j]\<close> is read for every \<open>j < len(ck)\<close> and raises IndexError when \<open>t0\<close> is
  shorter than \<open>ck\<close>.
\<close>

definition select_obs :: "array1 \<Rightarrow> real \<Rightarrow> array1 \<Rightarrow> error + (real \<times> nat list)" where
  "select_obs t0 maxTime ck =
    (if length t0 < length ck then Inl IndexError
     else
       (let (res, xs2) = Solve (take (length ck) t0) maxTime ck;
            sInds = filter (\<lambda>j. xs2 ! j > 0) [0..<length xs2]
        in Inr (dot ck xs2, sInds)))"

section \<open>Observation-value metric: \<^verbatim>\<open>find_ck\<close>\<close>

text \<open>
  \<^verbatim>\<open>find_ck\<close> integrates closed-form roots of the quartic
  \<open>z\<^sup>4 - z\<^sup>3 / sqrt k + b\<^sup>2 / (4 k) = 0\<close>.  The roots are produced at run time by
  \<^verbatim>\<open>sympy.solvers.solve\<close> and turned into functions by \<^verbatim>\<open>sympy.lambdify\<close>; the integrals
  are computed by \<^verbatim>\<open>integrate.quad(f, lo, hi, limit=50, epsabs=0, epsrel=1e-4)\<close>.  Neither is
  part of the repository, so \<open>sol3\<close>, \<open>sol4\<close> (the third and fourth root, as functions of
  \<open>k\<close> and \<open>b\<close>) and \<open>quad\<close> are parameters.  What the source itself fixes is the choice
  of the pieces that are integrated; \<open>find_ck_star\<close> is the value stored in \<^verbatim>\<open>ck[i]\<close> for
  a star with separations \<open>smin = smin[i]\<close> and \<open>smax = smax[i]\<close>.

  The six breakpoints:
\<close>

type_synonym root_fn = "real \<Rightarrow> real \<Rightarrow> real"

definition k1 :: "real \<Rightarrow> real \<Rightarrow> real" where
  "k1 amax smin = cos (0.5 * (pi - arcsin (smin / amax))) ^ 4 / amax^2"

definition k2 :: "real \<Rightarrow> real \<Rightarrow> real" where
  "k2 amax smax = cos (0.5 * (pi - arcsin (smax / amax))) ^ 4 / amax^2"

definition k3 :: "real \<Rightarrow> real \<Rightarrow> real" where
  "k3 amax smax = cos (0.5 * arcsin (smax / amax)) ^ 4 / amax^2"

definition k4 :: "real \<Rightarrow> real" where
  "k4 smax = 27 / 64 * (1 / smax^2)"

definition k5 :: "real \<Rightarrow> real \<Rightarrow> real" where
  "k5 amax smin = cos (0.5 * arcsin (smin / amax)) ^ 4 / amax^2"

definition k6 :: "real \<Rightarrow> real" where
  "k6 smin = 27 / 64 * (1 / smin^2)"

text \<open>
  The value of \<^verbatim>\<open>ck[i]\<close>.  The source assigns the first integral to \<^verbatim>\<open>ck[i]\<close> and adds
  the others with \<^verbatim>\<open>+=\<close>, the piece from \<open>k2\<close> to \<open>k3\<close> only if \<^verbatim>\<open>k2[i] != k3[i]\<close>.
\<close>

definition find_ck_star ::
    "quad_fn \<Rightarrow> root_fn \<Rightarrow> root_fn \<Rightarrow> real \<Rightarrow> real \<Rightarrow> real \<Rightarrow> real \<Rightarrow> real \<Rightarrow> real \<Rightarrow> real \<Rightarrow> real" where
  "find_ck_star quad sol3 sol4 amin amax smin smax Cmin pexp Rexp =
    (let an = 1 / ln (amax / amin);
         cg = an * (sqrt (1 - (smax / amax)^2) - sqrt (1 - (smin / amax)^2)
                    + ln (smax / (sqrt (1 - (smax / amax)^2) + 1))
                    - ln (smin / (sqrt (1 - (smin / amax)^2) + 1)));
         anp = an / cg;
         k1 = k1 amax smin; k2 = k2 amax smax; k3 = k3 amax smax; k4 = k4 smax;
         k5 = k5 amax smin; k6 = k6 smin;
         kmin = Cmin / (pexp * Rexp^2);
         al1 = (\<lambda>k. sol3 k smin);
         au1 = (\<lambda>k. sol4 k smin);
         au2 = (\<lambda>k. sol3 k smax);
         al2 = (\<lambda>k. sol4 k smax);
         f12 = (\<lambda>k. anp / (2 * sqrt k) * (amax - al1 k));
         f23 = (\<lambda>k. anp / (2 * sqrt k) * (au2 k - al1 k));
         f34 = (\<lambda>k. anp / (2 * sqrt k) * (amax - al2 k + au2 k - al1 k));
         f45 = (\<lambda>k. anp / (2 * sqrt k) * (amax - al1 k));
         f56 = (\<lambda>k. anp / (2 * sqrt k) * (au1 k - al1 k));
         f35 = (\<lambda>k. anp / (2 * sqrt k) * (amax - al2 k + au2 k - al1 k));
         f54 = (\<lambda>k. anp / (2 * sqrt k) * (au1 k - al2 k + au2 k - al1 k));
         f46 = (\<lambda>k. anp / (2 * sqrt k) * (au1 k - al1 k))
     in
     if smin = smax then 0
     else if k4 < k5 then
       (if kmin < k1 then
          (let ck = quad f12 k1 k2;
               ck = (if k2 \<noteq> k3 then ck + quad f23 k2 k3 else ck)
           in ck + quad f34 k3 k4 + quad f45 k4 k5 + quad f56 k5 k6)
        else if kmin > k1 \<and> kmin < k2 then
          (let ck = quad f12 kmin k2;
               ck = (if k2 \<noteq> k3 then ck + quad f23 k2 k3 else ck)
           in ck + quad f34 k3 k4 + quad f45 k4 k5 + quad f56 k5 k6)
        else if kmin > k2 \<and> kmin < k3 then
          quad f23 kmin k3 + quad f34 k3 k4 + quad f45 k4 k5 + quad f56 k5 k6
        else if kmin > k3 \<and> kmin < k4 then
          quad f34 kmin k4 + quad f45 k4 k5 + quad f56 k5 k6
        else if kmin > k4 \<and> kmin < k5 then
          quad f45 kmin k5 + quad f56 k5 k6
        else if kmin < k6 then
          quad f56 kmin k6
        else 0)
     else
       (if kmin < k1 then
          (let ck = quad f12 k1 k2;
               ck = (if k2 \<noteq> k3 then ck + quad f23 k2 k3 else ck)
           in ck + quad f35 k3 k5 + quad f54 k5 k4 + quad f46 k4 k6)
        else if kmin > k1 \<and> kmin < k2 then
          (let ck = quad f12 kmin k2;
               ck = (if k2 \<noteq> k3 then ck + quad f23 k2 k3 else ck)
           in ck + quad f35 k3 k5 + quad f54 k5 k4 + quad f46 k4 k6)
        else if kmin > k2 \<and> kmin < k3 then
          quad f23 kmin k3 + quad f35 k3 k5 + quad f54 k5 k4 + quad f46 k4 k6
        else if kmin > k3 \<and> kmin < k5 then
          quad f35 kmin k5 + quad f54 k5 k4 + quad f46 k4 k6
        else if kmin > k5 \<and> kmin < k4 then
          quad f54 kmin k4 + quad f46 k4 k6
        else if kmin < k6 then
          quad f46 kmin k6
        else 0))"

section \<open>Notions used in the proofs\<close>

text \<open>
  Both blocks of \<^verbatim>\<open>one_DoS_grid\<close> treat a pair of contrasts in the same way: the lower one
  is raised to \<open>Cmin\<close>, both are set to zero when the raised value exceeds the upper one, and
  the difference of the square roots is taken.
\<close>

definition clipped_gap :: "real \<Rightarrow> real \<Rightarrow> real \<Rightarrow> real" where
  "clipped_gap hi lo c =
    (let lo' = (if lo < c then c else lo);
         vals = (lo' > hi)
     in sqrt (if vals then 0 else hi) - sqrt (if vals then 0 else lo'))"

text \<open>A 0/1 assignment of \<open>n\<close> variables, and the stars that an assignment selects.\<close>

definition binary_vector :: "nat \<Rightarrow> real list \<Rightarrow> bool" where
  "binary_vector n x = (length x = n \<and> list_all (\<lambda>v. v = 0 \<or> v = 1) x)"

definition selected :: "real list \<Rightarrow> nat list" where
  "selected x = filter (\<lambda>j. x ! j > 0) [0..<length x]"

text \<open>The assignment that selects exactly the stars of \<open>S\<close> among \<open>n\<close> stars.\<close>

definition indicator_vector :: "nat \<Rightarrow> nat set \<Rightarrow> real list" where
  "indicator_vector n S = map (\<lambda>j. if j \<in> S then 1 else 0) [0..<n]"

section \<open>Properties of the geometric visibility model\<close>

lemma coef_nonneg: "0 \<le> a \<Longrightarrow> 0 \<le> p \<Longrightarrow> 0 \<le> a / sqrt (p * R^2)"
  by simp

lemma clipped_gap_nonneg: "0 \<le> clipped_gap hi lo c"
  by (simp add: clipped_gap_def Let_def)

lemma clipped_gap_same: "clipped_gap x x c = 0"
  by (simp add: clipped_gap_def Let_def)

lemma clipped_gap_mono: "c \<le> c' \<Longrightarrow> clipped_gap hi lo c' \<le> clipped_gap hi lo c"
  by (auto simp: clipped_gap_def Let_def not_less)

lemma fg_gaps:
  "fg a R p smin smax Cmin =
     a / sqrt (p * R^2) *
       (clipped_gap (p * (R / a)^2 * cos ((pi - arcsin (smax / a)) / 2) ^ 4)
                    (p * (R / a)^2 * cos ((pi - arcsin (smin / a)) / 2) ^ 4) Cmin
        + clipped_gap (p * (R / a)^2 * cos (arcsin (smin / a) / 2) ^ 4)
                      (p * (R / a)^2 * cos (arcsin (smax / a) / 2) ^ 4) Cmin)"
  unfolding fg_def clipped_gap_def Let_def by (simp only: add_diff_eq)

lemma fl_gaps:
  "fl a R p smin Cmin =
     a / sqrt (p * R^2) *
       clipped_gap (if smin / a < 1 then p * (R / a)^2 * cos (arcsin (smin / a) / 2) ^ 4 else 1)
                   (if smin / a < 1 then p * (R / a)^2 * cos ((pi - arcsin (smin / a)) / 2) ^ 4 else 1)
                   Cmin"
  unfolding fl_def clipped_gap_def Let_def by (simp cong: if_cong)

lemma one_DoS_point_nonneg:
  assumes "0 \<le> a" "0 \<le> p"
  shows "0 \<le> one_DoS_point a R p smin smax Cmin"
  using assms
  by (simp add: one_DoS_point_def Let_def fg_gaps fl_gaps clipped_gap_nonneg)

lemma one_DoS_point_outside: "a < smin \<Longrightarrow> one_DoS_point a R p smin smax Cmin = 0"
  by (simp add: one_DoS_point_def Let_def)

lemma fg_mono:
  assumes "0 \<le> a" "0 \<le> p" "Cmin \<le> Cmin'"
  shows "fg a R p smin smax Cmin' \<le> fg a R p smin smax Cmin"
  unfolding fg_gaps
  by (intro mult_left_mono add_mono clipped_gap_mono coef_nonneg assms)

lemma fl_mono:
  assumes "0 \<le> a" "0 \<le> p" "Cmin \<le> Cmin'"
  shows "fl a R p smin Cmin' \<le> fl a R p smin Cmin"
  unfolding fl_gaps
  by (intro mult_left_mono clipped_gap_mono coef_nonneg assms)

lemma one_DoS_point_mono:
  assumes "0 \<le> a" "0 \<le> p" "Cmin \<le> Cmin'"
  shows "one_DoS_point a R p smin smax Cmin' \<le> one_DoS_point a R p smin smax Cmin"
  using fg_mono [OF assms] fl_mono [OF assms]
  by (simp add: one_DoS_point_def Let_def)

lemma one_DoS_point_degenerate:
  assumes "0 < a"
  shows "one_DoS_point a R p s s Cmin = 0"
proof (cases "s < a")
  case True
  then show ?thesis
    by (simp add: one_DoS_point_def Let_def fg_gaps clipped_gap_same)
next
  case False
  show ?thesis
  proof (cases "a < s")
    case True
    then show ?thesis by (rule one_DoS_point_outside)
  next
    case False
    with \<open>\<not> s < a\<close> have "s = a" by simp
    with assms show ?thesis
      by (simp add: one_DoS_point_def Let_def fl_gaps clipped_gap_same)
  qed
qed

lemma one_DoS_grid_nth:
  assumes "one_DoS_grid a R p smin smax Cmin = Inr f"
  shows "length f = length a"
    and "i < length a \<Longrightarrow> length (f ! i) = length (a ! i)"
    and "i < length a \<Longrightarrow> j < length (a ! i) \<Longrightarrow>
           f ! i ! j = one_DoS_point (a ! i ! j) (R ! i ! j) p smin smax (Cmin ! i ! j)"
proof -
  from assms have sh: "map length a = map length R" "map length a = map length Cmin"
    and f: "f = map (\<lambda>(arow, Rrow, Crow).
                 map (\<lambda>(x, y, c). one_DoS_point x y p smin smax c) (zip arow (zip Rrow Crow)))
               (zip a (zip R Cmin))"
    by (auto simp: one_DoS_grid_def same_shape_def split: if_splits)
  from sh have len: "length R = length a" "length Cmin = length a"
    by (metis length_map)+
  show "length f = length a"
    by (simp add: f len)
  {
    assume i: "i < length a"
    from sh i len have li: "length (R ! i) = length (a ! i)" "length (Cmin ! i) = length (a ! i)"
      by (metis nth_map)+
    from i len have fi: "f ! i = map (\<lambda>(x, y, c). one_DoS_point x y p smin smax c)
                                 (zip (a ! i) (zip (R ! i) (Cmin ! i)))"
      by (simp add: f)
    show "length (f ! i) = length (a ! i)"
      by (simp add: fi li)
    assume j: "j < length (a ! i)"
    show "f ! i ! j = one_DoS_point (a ! i ! j) (R ! i ! j) p smin smax (Cmin ! i ! j)"
      using j li by (simp add: fi)
  }
qed

lemma one_DoS_grid_total:
  "same_shape a R \<Longrightarrow> same_shape a Cmin \<Longrightarrow> \<exists>f. one_DoS_grid a R p smin smax Cmin = Inr f"
  by (simp add: one_DoS_grid_def)

text \<open>
  A value of the model, computed by hand from the source as well: in the block
  \<^verbatim>\<open>smax >= a\<close> with \<open>smin = 0\<close> the two phase angles are 0 and \<open>\<pi>\<close>, the contrasts are
  \<open>p * (R/a)\<^sup>2\<close> and 0, the latter is raised to \<open>Cmin\<close>, and the result is
  \<open>1 - sqrt (1/4) = 1/2\<close>.
\<close>

lemma one_DoS_point_example: "one_DoS_point 1 1 1 0 2 (1/4) = 1/2"
  by (simp add: one_DoS_point_def fl_def Let_def real_sqrt_divide)

lemma one_DoS_grid_example: "one_DoS_grid [[1]] [[1]] 1 0 2 [[1/4]] = Inr [[1/2]]"
  by (simp add: one_DoS_grid_def same_shape_def one_DoS_point_example)

text \<open>
  Claim C5.  For every input with \<open>smin \<ge> 0\<close>, \<open>smax \<ge> 0\<close> and positive \<open>a\<close>, \<open>R\<close>, \<open>p\<close>,
  \<^verbatim>\<open>one_DoS_grid\<close> returns an array whose value at every grid point is non-negative, and
  is zero at every grid point where \<open>smin > a\<close>.  The hypotheses on \<open>a\<close> and \<open>R\<close> are needed at
  the grid point \<open>(i, j)\<close> only.
\<close>

theorem one_DoS_grid_nonneg:
  assumes "same_shape a R" "same_shape a Cmin"
    and "i < length a" "j < length (a ! i)"
    and "0 \<le> smin" "0 \<le> smax" "0 < a ! i ! j" "0 < R ! i ! j" "0 < p"
  shows "\<exists>f. one_DoS_grid a R p smin smax Cmin = Inr f \<and> 0 \<le> f ! i ! j \<and>
             (a ! i ! j < smin \<longrightarrow> f ! i ! j = 0)"
proof -
  from assms(1,2) obtain f where f: "one_DoS_grid a R p smin smax Cmin = Inr f"
    using one_DoS_grid_total by blast
  have v: "f ! i ! j = one_DoS_point (a ! i ! j) (R ! i ! j) p smin smax (Cmin ! i ! j)"
    using f assms(3,4) by (rule one_DoS_grid_nth(3))
  have "0 \<le> f ! i ! j"
    unfolding v using assms(7,9) by (intro one_DoS_point_nonneg) simp_all
  moreover have "a ! i ! j < smin \<longrightarrow> f ! i ! j = 0"
    unfolding v by (simp add: one_DoS_point_outside)
  ultimately show ?thesis using f by blast
qed

theorem one_DoS_grid_nonneg_witness:
  "\<exists>f. one_DoS_grid [[2, 1/2]] [[1, 1]] (1/2) 1 3 [[1/10, 1/10]] = Inr f \<and>
       0 \<le> f ! 0 ! 1 \<and> f ! 0 ! 1 = 0"
  using one_DoS_grid_nonneg [of "[[2, 1/2]]" "[[1, 1]]" "[[1/10, 1/10]]" 0 1 1 3 "1/2"]
  by (simp add: same_shape_def)

text \<open>
  Claim C3.  For a fixed star (\<open>smin\<close>, \<open>smax\<close>, \<open>p\<close>) and a grid point \<open>(a, R)\<close> of the
  model's domain (\<open>smin \<ge> 0\<close>, \<open>smax \<ge> 0\<close>, positive \<open>a\<close>, \<open>R\<close>, \<open>p\<close>), the output of
  \<^verbatim>\<open>one_DoS_grid\<close> does not increase when the contrast floor increases: if
  \<open>Cmin' \<ge> Cmin\<close> at the grid point, the value computed from \<open>Cmin'\<close> is at most the value
  computed from \<open>Cmin\<close>.
\<close>

theorem one_DoS_grid_mono_Cmin:
  assumes "same_shape a R" "same_shape a Cmin" "same_shape a Cmin'"
    and "i < length a" "j < length (a ! i)"
    and "0 \<le> smin" "0 \<le> smax" "0 < a ! i ! j" "0 < R ! i ! j" "0 < p"
    and "Cmin ! i ! j \<le> Cmin' ! i ! j"
  shows "\<exists>f f'. one_DoS_grid a R p smin smax Cmin = Inr f \<and>
                one_DoS_grid a R p smin smax Cmin' = Inr f' \<and>
                f' ! i ! j \<le> f ! i ! j"
proof -
  from assms(1,2) obtain f where f: "one_DoS_grid a R p smin smax Cmin = Inr f"
    using one_DoS_grid_total by blast
  from assms(1,3) obtain f' where f': "one_DoS_grid a R p smin smax Cmin' = Inr f'"
    using one_DoS_grid_total by blast
  have v: "f ! i ! j = one_DoS_point (a ! i ! j) (R ! i ! j) p smin smax (Cmin ! i ! j)"
    using f assms(4,5) by (rule one_DoS_grid_nth(3))
  have v': "f' ! i ! j = one_DoS_point (a ! i ! j) (R ! i ! j) p smin smax (Cmin' ! i ! j)"
    using f' assms(4,5) by (rule one_DoS_grid_nth(3))
  have "f' ! i ! j \<le> f ! i ! j"
    unfolding v v' using assms(8,10,11) by (intro one_DoS_point_mono) simp_all
  with f f' show ?thesis by blast
qed

theorem one_DoS_grid_mono_Cmin_witness:
  "\<exists>f f'. one_DoS_grid [[1]] [[1]] 1 0 2 [[1/4]] = Inr f \<and>
           one_DoS_grid [[1]] [[1]] 1 0 2 [[1]] = Inr f' \<and>
           f' ! 0 ! 0 \<le> f ! 0 ! 0"
  using one_DoS_grid_mono_Cmin [of "[[1]]" "[[1]]" "[[1/4]]" "[[1]]" 0 0 0 2 1]
  by (simp add: same_shape_def)

text \<open>
  Claim C10.  For a star with a degenerate separation band, \<open>smin = smax = s\<close>, and positive
  \<open>a\<close>, \<open>R\<close>, \<open>p\<close>, \<open>Cmin\<close>, \<^verbatim>\<open>one_DoS_grid\<close> returns zero at every grid point.  Where
  \<open>s < a\<close> the two pairs of contrasts coincide before clipping, so each pair is either
  zeroed or equal after it; where \<open>s > a\<close> the value is forced to zero; where \<open>s = a\<close> both
  contrasts are 1 and cancel.
\<close>

theorem one_DoS_grid_degenerate_band:
  assumes "same_shape a R" "same_shape a Cmin"
    and "i < length a" "j < length (a ! i)"
    and "0 < a ! i ! j" "0 < R ! i ! j" "0 < p" "0 < Cmin ! i ! j"
  shows "\<exists>f. one_DoS_grid a R p s s Cmin = Inr f \<and> f ! i ! j = 0"
proof -
  from assms(1,2) obtain f where f: "one_DoS_grid a R p s s Cmin = Inr f"
    using one_DoS_grid_total by blast
  have "f ! i ! j = one_DoS_point (a ! i ! j) (R ! i ! j) p s s (Cmin ! i ! j)"
    using f assms(3,4) by (rule one_DoS_grid_nth(3))
  also have "\<dots> = 0"
    using assms(5) by (rule one_DoS_point_degenerate)
  finally show ?thesis using f by blast
qed

theorem one_DoS_grid_degenerate_band_witness:
  "\<exists>f. one_DoS_grid [[2, 1, 1/2]] [[1, 1, 1]] (1/2) 1 1 [[1/10, 1/10, 1/10]] = Inr f \<and>
       f ! 0 ! 0 = 0 \<and> f ! 0 ! 1 = 0 \<and> f ! 0 ! 2 = 0"
  using one_DoS_grid_degenerate_band
          [of "[[2, 1, 1/2]]" "[[1, 1, 1]]" "[[1/10, 1/10, 1/10]]" 0 0 "1/2" 1]
        one_DoS_grid_degenerate_band
          [of "[[2, 1, 1/2]]" "[[1, 1, 1]]" "[[1/10, 1/10, 1/10]]" 0 1 "1/2" 1]
        one_DoS_grid_degenerate_band
          [of "[[2, 1, 1/2]]" "[[1, 1, 1]]" "[[1/10, 1/10, 1/10]]" 0 2 "1/2" 1]
  by (auto simp: same_shape_def)

section \<open>Properties of the bin integrator\<close>

lemma has_shape_row: "has_shape v n m \<Longrightarrow> i < n \<Longrightarrow> length (v ! i) = m"
  by (auto simp: has_shape_def list_all_length)

lemma add2_length: "length (add2 x y) = min (length x) (length y)"
  by (simp add: add2_def)

lemma add2_nth:
  "i < length x \<Longrightarrow> i < length y \<Longrightarrow> add2 x y ! i = map2 (+) (x ! i) (y ! i)"
  by (simp add: add2_def)

lemma corner_mean_length: "length (corner_mean v) = length v - 1"
  by (simp add: corner_mean_def add2_length)

lemma corner_mean_row:
  assumes "has_shape v (Suc N) (Suc M)" "i < N"
  shows "corner_mean v ! i =
           map (\<lambda>s. 0.25 * s)
             (map2 (+) (map2 (+) (map2 (+) (butlast (v ! i)) (butlast (v ! Suc i)))
                                 (tl (v ! i)))
                       (tl (v ! Suc i)))"
proof -
  from assms have len: "length v = Suc N" by (simp add: has_shape_def)
  with assms(2) show ?thesis
    by (simp add: corner_mean_def add2_nth add2_length nth_butlast nth_tl)
qed

lemma corner_mean_nth:
  assumes "has_shape v (Suc N) (Suc M)" "i < N" "j < M"
  shows "corner_mean v ! i ! j =
           0.25 * (v ! i ! j + v ! Suc i ! j + v ! i ! Suc j + v ! Suc i ! Suc j)"
proof -
  have r: "length (v ! i) = Suc M" "length (v ! Suc i) = Suc M"
    using assms(1,2) by (simp_all add: has_shape_row)
  show ?thesis
    using assms(3) r by (simp add: corner_mean_row [OF assms(1,2)] nth_butlast nth_tl)
qed

lemma corner_mean_shape:
  assumes "has_shape v (Suc N) (Suc M)"
  shows "has_shape (corner_mean v) N M"
proof -
  from assms have len: "length v = Suc N" by (simp add: has_shape_def)
  have "length (corner_mean v ! i) = M" if "i < N" for i
  proof -
    have r: "length (v ! i) = Suc M" "length (v ! Suc i) = Suc M"
      using assms that by (simp_all add: has_shape_row)
    show ?thesis
      by (simp add: corner_mean_row [OF assms that] r)
  qed
  then show ?thesis
    by (simp add: has_shape_def list_all_length corner_mean_length len)
qed

lemma corner_mean_example: "corner_mean [[1, 2, 3], [5, 6, 9]] = [[7/2, 5]]"
  by (simp add: corner_mean_def add2_def)

lemma one_DoS_grid_example2:
  "one_DoS_grid [[1, 1], [1, 1]] [[1, 1], [1, 1]] 1 0 2 [[1/4, 1], [0, 1/4]]
     = Inr [[1/2, 0], [1, 1/2]]"
  by (simp add: one_DoS_grid_def same_shape_def one_DoS_point_def fl_def Let_def
        real_sqrt_divide)

text \<open>
  Claim C6.  For every corner-value grid \<open>v\<close> of shape \<open>(N+1, M+1)\<close>, the bin integrator
  returns an array of shape \<open>(N, M)\<close> whose entry \<open>(i, j)\<close> is
  \<open>0.25 * (v[i,j] + v[i+1,j] + v[i,j+1] + v[i+1,j+1])\<close>, the mean of the four corners of
  bin \<open>(i, j)\<close>.  The array \<^verbatim>\<open>one_DoS_bins\<close> returns is \<open>corner_mean v\<close> for the grid \<open>v\<close>
  that \<^verbatim>\<open>one_DoS_grid\<close> computes from the same arguments.
\<close>

theorem one_DoS_bins_corner_mean:
  assumes "has_shape v (Suc N) (Suc M)"
  shows "has_shape (corner_mean v) N M \<and>
         (\<forall>i<N. \<forall>j<M. corner_mean v ! i ! j =
             0.25 * (v ! i ! j + v ! Suc i ! j + v ! i ! Suc j + v ! Suc i ! Suc j)) \<and>
         (one_DoS_grid a R p smin smax Cmin = Inr v \<longrightarrow>
            one_DoS_bins a R p smin smax Cmin = Inr (corner_mean v))"
  using assms
  by (simp add: corner_mean_shape corner_mean_nth one_DoS_bins_def)

theorem one_DoS_bins_corner_mean_witness:
  "has_shape (corner_mean [[1/2, 0], [1, 1/2]]) 1 1 \<and>
   corner_mean [[1/2, 0], [1, 1/2]] ! 0 ! 0 = 1/2 \<and>
   one_DoS_bins [[1, 1], [1, 1]] [[1, 1], [1, 1]] 1 0 2 [[1/4, 1], [0, 1/4]]
     = Inr (corner_mean [[1/2, 0], [1, 1/2]])"
  using one_DoS_bins_corner_mean
          [of "[[1/2, 0], [1, 1/2]]" 1 1 "[[1, 1], [1, 1]]" "[[1, 1], [1, 1]]" 1 0 2
              "[[1/4, 1], [0, 1/4]]"]
  by (simp add: has_shape_def one_DoS_grid_example2)

section \<open>Properties of the aggregator\<close>

lemma has_shape_shape0: "has_shape v (Suc N) M \<Longrightarrow> shape0 v = int N + 1"
  by (simp add: has_shape_def shape0_def)

lemma has_shape_shape1: "has_shape v (Suc N) M \<Longrightarrow> shape1 v = int M"
  by (cases v) (simp_all add: has_shape_def shape1_def)

lemma zeros_bins:
  assumes "has_shape aa (Suc N) (Suc M)"
  shows "zeros (shape0 aa - 1) (shape1 aa - 1) = Inr (replicate N (replicate M 0))"
  using has_shape_shape0 [OF assms] has_shape_shape1 [OF assms]
  by (simp add: zeros_def)

text \<open>
  Claim C9.  Over an empty star list the aggregator returns the all-zero array of the
  bin-grid shape: if \<open>aa\<close> has shape \<open>(N+1, M+1)\<close>, then \<^verbatim>\<open>DoS_sum\<close> with \<open>smin = []\<close>
  returns \<open>N\<close> rows of \<open>M\<close> zeros, whatever the other arguments are (in particular when
  \<open>smax\<close>, \<open>dist\<close> and \<open>C_inst\<close> are empty too), and so does the caller's branch for
  \<open>nStars = 0\<close>.  Neither raises.
\<close>

theorem DoS_sum_no_stars:
  assumes "has_shape aa (Suc N) (Suc M)"
  shows "DoS_sum spline quad a aa R RR pexp [] smax dist_pc C_inst WA
           = Inr (replicate N (replicate M 0)) \<and>
         init_DoS spline quad 0 a aa R RR pexp smin smax dist_pc C_inst WA
           = Inr (replicate N (replicate M 0)) \<and>
         has_shape (replicate N (replicate M (0::real))) N M"
  using zeros_bins [OF assms]
  by (simp add: DoS_sum_def init_DoS_def has_shape_def list_all_length)

theorem DoS_sum_no_stars_witness:
  "DoS_sum (\<lambda>WA C. Inr (\<lambda>x. 0)) (\<lambda>f lo hi. (hi - lo) * f ((lo + hi) / 2))
       [1, 2, 3] [[1, 2, 3], [1, 2, 3]] [4, 5] [[4, 4, 4], [5, 5, 5]] (1/2)
       [] [] [] [] [1/10, 1/5] = Inr [[0, 0]] \<and>
   init_DoS (\<lambda>WA C. Inr (\<lambda>x. 0)) (\<lambda>f lo hi. (hi - lo) * f ((lo + hi) / 2)) 0
       [1, 2, 3] [[1, 2, 3], [1, 2, 3]] [4, 5] [[4, 4, 4], [5, 5, 5]] (1/2)
       [] [] [] [] [1/10, 1/5] = Inr [[0, 0]]"
  using DoS_sum_no_stars [of "[[1, 2, 3], [1, 2, 3]]" 1 2 "\<lambda>WA C. Inr (\<lambda>x. 0)"
          "\<lambda>f lo hi. (hi - lo) * f ((lo + hi) / 2)" "[1, 2, 3]" "[4, 5]"
          "[[4, 4, 4], [5, 5, 5]]" "1/2" "[]" "[]" "[]" "[1/10, 1/5]" "[]"]
  by (simp add: has_shape_def numeral_2_eq_2)

text \<open>
  The expected minimum contrast.  Below \<open>smin\<close> the sentinel 1 is stored.  At
  \<open>a[j] = smin[i]\<close> (with \<open>a[j] \<le> smax[i]\<close>) the source takes the \<^verbatim>\<open>else\<close> branch with
  \<open>su = a[j]\<close>, so \<open>tup = tlow = 0\<close> and \<^verbatim>\<open>val/(tup - tlow)\<close> divides by zero; the same
  happens at every \<open>a[j] \<ge> smin[i]\<close> when \<open>smin[i] = smax[i]\<close>.
\<close>

lemma expected_Cmin_sentinel:
  "aj < smin_i \<Longrightarrow> expected_Cmin quad Cs smax dist_pc i smin_i aj = Inr 1"
  by (simp add: expected_Cmin_def)

lemma expected_Cmin_zero_width:
  assumes "i < length smax" "i < length dist_pc" "0 < aj" "aj \<le> smax ! i"
  shows "expected_Cmin quad Cs smax dist_pc i aj aj = Inl NotFinite"
  using assms by (simp add: expected_Cmin_def Let_def)

lemma expected_Cmin_degenerate_band:
  assumes "i < length smax" "i < length dist_pc" "smax ! i = smin_i" "smin_i \<le> aj"
  shows "expected_Cmin quad Cs smax dist_pc i smin_i aj = Inl NotFinite"
  using assms by (auto simp: expected_Cmin_def Let_def)

text \<open>
  Claim C4 says that the per-star contrast-curve integrator produces a defined value for
  every star and every sample \<open>a[j]\<close>, the zero-width interval \<open>a[j] = smin\<close> included.  The
  source does not: for \<open>a[j] = smin[i] = 1\<close>, \<open>smax[i] = 2\<close>, \<open>dist[i] = 10\<close> the value
  stored in \<^verbatim>\<open>Cmin[j]\<close> is the quotient by \<open>tup - tlow = 0\<close>, whatever the interpolant and the
  quadrature routine return.
\<close>

theorem expected_Cmin_at_smin_undefined:
  "expected_Cmin quad Cs [2] [10] 0 1 1 = Inl NotFinite"
  by (simp add: expected_Cmin_def Let_def)

lemma DoS_sum_at_smin_undefined:
  "DoS_sum (\<lambda>WA C. Inr Cs) quad [1, 2] [[1, 2], [1, 2]] [1, 1] RR (1/2) [1] [2] [10]
       [[1/10, 1/10]] [1/10, 1/5]
     = Inl NotFinite"
  by (simp add: DoS_sum_def zeros_def shape0_def shape1_def star_DoS_def expected_Cmin_def
        Let_def)

section \<open>Properties of the ck offset\<close>


lemma ck_offset_example: "ck_offset [0, 2, 1/2] = Inr [1/200, 401/200, 101/200]"
  by (simp add: ck_offset_def)

lemma ck_offset_no_positive: "ck_offset [0, 0] = Inl ValueError"
  by (simp add: ck_offset_def)



section \<open>Properties of the star selection\<close>

lemma assignments_binary:
  "x \<in> set (assignments vs) \<longleftrightarrow> binary_vector (length vs) x"
proof (induction vs arbitrary: x)
  case Nil
  show ?case by (auto simp: binary_vector_def)
next
  case (Cons v vs)
  show ?case
  proof (cases x)
    case Nil
    then show ?thesis by (auto simp: binary_vector_def)
  next
    case (Cons y ys)
    then show ?thesis
      using Cons.IH [of ys] by (auto simp: binary_vector_def)
  qed
qed

lemma foldl_best:
  fixes w :: "'a \<Rightarrow> real"
  shows "foldl (\<lambda>best x. if w best < w x then x else best) x0 rest \<in> set (x0 # rest) \<and>
         (\<forall>x\<in>set (x0 # rest). w x \<le> w (foldl (\<lambda>best x. if w best < w x then x else best) x0 rest))"
proof (induction rest arbitrary: x0)
  case Nil
  show ?case by simp
next
  case (Cons y ys)
  let ?x1 = "if w x0 < w y then y else x0"
  from Cons.IH [of ?x1] show ?case
    by (auto split: if_splits)
qed

lemma Solve_feasible:
  assumes "binary_vector (length obj) y" "dot coeffs y \<le> ub"
  shows "\<exists>xs. Solve coeffs ub obj = (OPTIMAL, xs) \<and> binary_vector (length obj) xs \<and>
              dot coeffs xs \<le> ub \<and>
              (\<forall>z. binary_vector (length obj) z \<and> dot coeffs z \<le> ub \<longrightarrow> dot obj z \<le> dot obj xs)"
proof -
  let ?feas = "filter (\<lambda>x. dot coeffs x \<le> ub) (assignments obj)"
  have mem: "z \<in> set ?feas \<longleftrightarrow> binary_vector (length obj) z \<and> dot coeffs z \<le> ub" for z
    by (simp add: assignments_binary)
  from assms have "y \<in> set ?feas" by (simp only: mem)
  then obtain x0 rest where fe: "?feas = x0 # rest"
    by (cases ?feas) auto
  let ?xs = "foldl (\<lambda>best x. if dot obj best < dot obj x then x else best) x0 rest"
  have S: "Solve coeffs ub obj = (OPTIMAL, ?xs)"
    by (simp add: Solve_def fe)
  from foldl_best [of "dot obj" x0 rest]
  have in_set: "?xs \<in> set ?feas" and best: "\<forall>x\<in>set ?feas. dot obj x \<le> dot obj ?xs"
    unfolding fe by blast+
  from in_set have "binary_vector (length obj) ?xs" "dot coeffs ?xs \<le> ub"
    by (simp_all only: mem)
  moreover from best have "\<forall>z. binary_vector (length obj) z \<and> dot coeffs z \<le> ub \<longrightarrow> dot obj z \<le> dot obj ?xs"
    using mem by blast
  ultimately show ?thesis using S by blast
qed

lemma Solve_infeasible:
  assumes "\<forall>y. binary_vector (length obj) y \<longrightarrow> \<not> dot coeffs y \<le> ub"
  shows "Solve coeffs ub obj = (INFEASIBLE, map (\<lambda>_. 0) obj)"
proof -
  have "filter (\<lambda>x. dot coeffs x \<le> ub) (assignments obj) = []"
    using assms by (simp add: filter_empty_conv assignments_binary)
  then show ?thesis by (simp add: Solve_def)
qed

lemma dot_sum:
  assumes "length x \<le> length c"
  shows "dot c x = (\<Sum>j<length x. c ! j * x ! j)"
proof -
  have "dot c x = (\<Sum>j = 0..<length (map2 (*) c x). map2 (*) c x ! j)"
    unfolding dot_def by (rule sum_list_sum_nth)
  also have "\<dots> = (\<Sum>j = 0..<length x. c ! j * x ! j)"
    using assms by (intro sum.cong) (simp_all add: min_def)
  finally show ?thesis by (simp add: atLeast0LessThan)
qed

lemma set_selected: "set (selected x) = {j. j < length x \<and> 0 < x ! j}"
  by (auto simp: selected_def)

lemma selected_sorted_distinct: "sorted (selected x) \<and> distinct (selected x)"
  by (simp add: selected_def sorted_wrt_filter)

lemma dot_selected:
  assumes "binary_vector n x" "n \<le> length c"
  shows "dot c x = (\<Sum>j\<in>set (selected x). c ! j)"
proof -
  from assms have len: "length x = n" and bin: "\<And>j. j < n \<Longrightarrow> x ! j = 0 \<or> x ! j = 1"
    by (auto simp: binary_vector_def list_all_length)
  have "dot c x = (\<Sum>j<n. c ! j * x ! j)"
    using dot_sum [of x c] assms(2) len by simp
  also have "\<dots> = (\<Sum>j<n. if 0 < x ! j then c ! j else 0)"
  proof (intro sum.cong refl)
    fix j assume "j \<in> {..<n}"
    then have "x ! j = 0 \<or> x ! j = 1" using bin by simp
    then show "c ! j * x ! j = (if 0 < x ! j then c ! j else 0)" by auto
  qed
  also have "\<dots> = (\<Sum>j\<in>{j \<in> {..<n}. 0 < x ! j}. c ! j)"
    by (rule sum.inter_filter [symmetric]) simp
  also have "{j \<in> {..<n}. 0 < x ! j} = set (selected x)"
    by (auto simp: set_selected len)
  finally show ?thesis .
qed
lemma indicator_binary: "binary_vector n (indicator_vector n S)"
  by (simp add: binary_vector_def indicator_vector_def list_all_length)

lemma indicator_selected: "S \<subseteq> {..<n} \<Longrightarrow> set (selected (indicator_vector n S)) = S"
  by (auto simp: set_selected indicator_vector_def split: if_splits)

lemma dot_indicator:
  assumes "S \<subseteq> {..<n}" "n \<le> length c"
  shows "dot c (indicator_vector n S) = (\<Sum>j\<in>S. c ! j)"
  using dot_selected [OF indicator_binary assms(2), of S] indicator_selected [OF assms(1)]
  by simp

lemma sum_take:
  assumes "S \<subseteq> {..<n}"
  shows "(\<Sum>j\<in>S. take n c ! j) = (\<Sum>j\<in>S. c ! j)"
  using assms by (intro sum.cong) auto
lemma select_obs_Solve:
  assumes "length ck \<le> length t0" "Solve (take (length ck) t0) maxTime ck = (st, xs)"
  shows "select_obs t0 maxTime ck = Inr (dot ck xs, selected xs)"
  using assms by (simp add: select_obs_def selected_def)

text \<open>
  What \<^verbatim>\<open>select_obs\<close> returns when some selection fits the budget: an optimal solution
  of the 0/1 program, given by the stars with a positive decision value.
\<close>

lemma select_obs_spec:
  assumes len: "length ck \<le> length t0"
    and S0: "S0 \<subseteq> {..<length ck}" "(\<Sum>j\<in>S0. t0 ! j) \<le> maxTime"
  shows "\<exists>xs. binary_vector (length ck) xs \<and>
           select_obs t0 maxTime ck = Inr (\<Sum>j\<in>set (selected xs). ck ! j, selected xs) \<and>
           set (selected xs) \<subseteq> {..<length ck} \<and>
           (\<Sum>j\<in>set (selected xs). t0 ! j) \<le> maxTime \<and>
           (\<forall>S. S \<subseteq> {..<length ck} \<and> (\<Sum>j\<in>S. t0 ! j) \<le> maxTime \<longrightarrow>
                (\<Sum>j\<in>S. ck ! j) \<le> (\<Sum>j\<in>set (selected xs). ck ! j))"
proof -
  let ?n = "length ck"
  let ?c = "take ?n t0"
  have lc: "?n \<le> length ?c" using len by simp
  have ind: "binary_vector ?n (indicator_vector ?n S) \<and>
             dot ?c (indicator_vector ?n S) = (\<Sum>j\<in>S. t0 ! j) \<and>
             dot ck (indicator_vector ?n S) = (\<Sum>j\<in>S. ck ! j)" if "S \<subseteq> {..<?n}" for S
    using that lc by (simp add: indicator_binary dot_indicator sum_take)
  from ind [OF S0(1)] S0(2) obtain xs where
    S: "Solve ?c maxTime ck = (OPTIMAL, xs)" and bin: "binary_vector ?n xs"
    and feas: "dot ?c xs \<le> maxTime"
    and opt: "\<forall>z. binary_vector ?n z \<and> dot ?c z \<le> maxTime \<longrightarrow> dot ck z \<le> dot ck xs"
    using Solve_feasible [of ck "indicator_vector ?n S0" ?c maxTime] by auto
  let ?s = "selected xs"
  from bin have lx: "length xs = ?n" by (simp add: binary_vector_def)
  have sub: "set ?s \<subseteq> {..<?n}" by (auto simp: set_selected lx)
  have obj: "dot ck xs = (\<Sum>j\<in>set ?s. ck ! j)"
    using bin by (rule dot_selected) simp
  have tim: "dot ?c xs = (\<Sum>j\<in>set ?s. t0 ! j)"
    using dot_selected [OF bin lc] sum_take [OF sub, of t0] by simp
  have "select_obs t0 maxTime ck = Inr (\<Sum>j\<in>set ?s. ck ! j, ?s)"
    using select_obs_Solve [OF len S] obj by simp
  moreover have "(\<Sum>j\<in>set ?s. t0 ! j) \<le> maxTime" using feas tim by simp
  moreover have "\<forall>S. S \<subseteq> {..<?n} \<and> (\<Sum>j\<in>S. t0 ! j) \<le> maxTime \<longrightarrow>
                   (\<Sum>j\<in>S. ck ! j) \<le> (\<Sum>j\<in>set ?s. ck ! j)"
  proof (intro allI impI)
    fix S assume a: "S \<subseteq> {..<?n} \<and> (\<Sum>j\<in>S. t0 ! j) \<le> maxTime"
    then have sS: "S \<subseteq> {..<?n}" and tS: "(\<Sum>j\<in>S. t0 ! j) \<le> maxTime" by simp_all
    note i = ind [OF sS]
    from i tS have "binary_vector ?n (indicator_vector ?n S) \<and>
                    dot ?c (indicator_vector ?n S) \<le> maxTime" by simp
    with opt have "dot ck (indicator_vector ?n S) \<le> dot ck xs" by blast
    with i obj show "(\<Sum>j\<in>S. ck ! j) \<le> (\<Sum>j\<in>set ?s. ck ! j)" by simp
  qed
  ultimately show ?thesis using sub bin by blast
qed

lemma select_obs_instance: "select_obs [10, 20, 15] 30 [5, 8, 6] = Inr (13, [0, 1])"
  by (simp add: select_obs_def Solve_def dot_def)

lemma subsets_3:
  assumes "S \<subseteq> {..<(3::nat)}"
  shows "S = {} \<or> S = {0} \<or> S = {1} \<or> S = {2} \<or> S = {0, 1} \<or> S = {0, 2} \<or> S = {1, 2} \<or> S = {0, 1, 2}"
proof -
  have "{..<(3::nat)} = {0, 1, 2}" by auto
  with assms have "S \<in> Pow {0, 1, 2}" by simp
  then show ?thesis unfolding Pow_insert Pow_empty by auto
qed

lemma instance_unique:
  assumes "S \<subseteq> {..<(3::nat)}" "(\<Sum>j\<in>S. [10, 20, 15::real] ! j) \<le> 30"
  shows "(\<Sum>j\<in>S. [5, 8, 6::real] ! j) \<le> 13 \<and> ((\<Sum>j\<in>S. [5, 8, 6::real] ! j) = 13 \<longrightarrow> S = {0, 1})"
  using subsets_3 [OF assms(1)] assms(2) by auto
lemma dot_zeros: "dot c (map (\<lambda>_. 0) obj) = 0"
proof (induction obj arbitrary: c)
  case Nil
  show ?case by (simp add: dot_def)
next
  case (Cons v vs)
  from Cons.IH show ?case by (cases c) (simp_all add: dot_def)
qed

lemma selected_zeros: "selected (map (\<lambda>_. 0) obj) = []"
  by (simp add: selected_def filter_empty_conv)

lemma sum_exceeds:
  fixes t :: "nat \<Rightarrow> real"
  assumes "finite S" "S \<noteq> {}" "\<forall>j\<in>S. m < t j" "\<forall>j\<in>S. 0 \<le> t j"
  shows "m < (\<Sum>j\<in>S. t j)"
proof -
  from assms(2) obtain k where k: "k \<in> S" by blast
  have "m < t k" using assms(3) k by simp
  also have "t k \<le> (\<Sum>j\<in>S. t j)"
    using assms(1) k assms(4) by (intro member_le_sum) simp_all
  finally show ?thesis .
qed
lemma select_obs_infeasible_example: "select_obs [1, 2] (-1) [3, 4] = Inr (0, [])"
  by (simp add: select_obs_def Solve_def dot_def)

text \<open>
  Claim C2, as the spec states it, gives for the instance \<open>t0 = [10, 20, 15]\<close>,
  \<open>ck = [5, 8, 6]\<close>, \<open>maxTime = 30\<close> the optimal objective 14 and the selection \<open>{0, 2}\<close>.
  The stars 0 and 2 have the objective \<open>5 + 6 = 11\<close>; the stars 0 and 1 fit the budget
  (\<open>10 + 20 = 30\<close>) and have the objective 13, which is what \<^verbatim>\<open>select_obs\<close> returns.
\<close>

theorem select_obs_instance_counterexample:
  "select_obs [10, 20, 15] 30 [5, 8, 6] \<noteq> Inr (14, [0, 2]) \<and>
   select_obs [10, 20, 15] 30 [5, 8, 6] = Inr (13, [0, 1]) \<and>
   dot [5, 8, 6] [1, 0, 1] = 11 \<and>
   dot [10, 20, 15] [1, 1, 0] \<le> 30 \<and> dot [5, 8, 6] [1, 1, 0] = 13"
  by (simp add: select_obs_instance) (simp add: dot_def)

text \<open>
  Claim C2, amended.  \<^verbatim>\<open>select_obs\<close> solves the 0/1 program to optimality: whenever
  some selection \<open>S0\<close> fits the budget, it returns the stars with a positive decision
  value of a 0/1 assignment, their total integration time does not exceed \<open>maxTime\<close>,
  the printed objective is the sum of their \<open>ck\<close>, and no selection that fits the budget
  has a greater sum of \<open>ck\<close>.  For the instance \<open>t0 = [10, 20, 15]\<close>, \<open>ck = [5, 8, 6]\<close>,
  \<open>maxTime = 30\<close> the optimal objective is 13 and the selected set is \<open>{0, 1}\<close>; it is the
  only selection within the budget that reaches 13.
\<close>

theorem select_obs_optimal:
  "(length ck \<le> length t0 \<and> S0 \<subseteq> {..<length ck} \<and> (\<Sum>j\<in>S0. t0 ! j) \<le> maxTime \<longrightarrow>
     (\<exists>xs. binary_vector (length ck) xs \<and>
        select_obs t0 maxTime ck = Inr (\<Sum>j\<in>set (selected xs). ck ! j, selected xs) \<and>
        set (selected xs) \<subseteq> {..<length ck} \<and>
        (\<Sum>j\<in>set (selected xs). t0 ! j) \<le> maxTime \<and>
        (\<forall>S. S \<subseteq> {..<length ck} \<and> (\<Sum>j\<in>S. t0 ! j) \<le> maxTime \<longrightarrow>
             (\<Sum>j\<in>S. ck ! j) \<le> (\<Sum>j\<in>set (selected xs). ck ! j)))) \<and>
   select_obs [10, 20, 15] 30 [5, 8, 6] = Inr (13, [0, 1]) \<and>
   (\<forall>S. S \<subseteq> {..<3} \<and> (\<Sum>j\<in>S. [10, 20, 15] ! j) \<le> (30::real) \<longrightarrow>
        (\<Sum>j\<in>S. [5, 8, 6] ! j) \<le> (13::real) \<and>
        ((\<Sum>j\<in>S. [5, 8, 6] ! j) = (13::real) \<longrightarrow> S = {0, 1}))"
  using select_obs_spec [of ck t0 S0 maxTime] select_obs_instance instance_unique
  by blast

theorem select_obs_optimal_witness:
  "\<exists>xs. binary_vector 2 xs \<and>
      select_obs [1, 2] 2 [3, 4] = Inr (\<Sum>j\<in>set (selected xs). [3, 4] ! j, selected xs) \<and>
      (\<Sum>j\<in>set (selected xs). [1, 2] ! j) \<le> (2::real) \<and>
      (4::real) \<le> (\<Sum>j\<in>set (selected xs). [3, 4] ! j)"
proof -
  have h: "length [3, 4::real] \<le> length [1, 2::real] \<and> {} \<subseteq> {..<length [3, 4::real]} \<and>
           (\<Sum>j\<in>{}. [1, 2::real] ! j) \<le> 2"
    by simp
  from select_obs_optimal [of "[3, 4]" "[1, 2]" "{}" 2] h obtain xs where
    b: "binary_vector (length [3, 4::real]) xs"
    and r: "select_obs [1, 2] 2 [3, 4] = Inr (\<Sum>j\<in>set (selected xs). [3, 4] ! j, selected xs)"
    and t: "(\<Sum>j\<in>set (selected xs). [1, 2] ! j) \<le> (2::real)"
    and o: "\<forall>S. S \<subseteq> {..<length [3, 4::real]} \<and> (\<Sum>j\<in>S. [1, 2::real] ! j) \<le> 2 \<longrightarrow>
                (\<Sum>j\<in>S. [3, 4::real] ! j) \<le> (\<Sum>j\<in>set (selected xs). [3, 4] ! j)"
    by blast
  have "{1} \<subseteq> {..<length [3, 4::real]} \<and> (\<Sum>j\<in>{1}. [1, 2::real] ! j) \<le> 2" by simp
  with o have "(\<Sum>j\<in>{1}. [3, 4::real] ! j) \<le> (\<Sum>j\<in>set (selected xs). [3, 4] ! j)" by blast
  then have f: "(4::real) \<le> (\<Sum>j\<in>set (selected xs). [3, 4] ! j)" by simp
  from b have b2: "binary_vector 2 xs" by (simp add: numeral_2_eq_2)
  from b2 r t f show ?thesis by blast
qed

text \<open>
  Claim C8.  If the integration time of every star exceeds \<open>maxTime\<close> (for example
  \<open>maxTime = 0\<close> with positive \<open>t0\<close>), \<^verbatim>\<open>select_obs\<close> returns the empty index array with the
  objective value 0, and does not raise.  Times are not negative: the budget is at least
  0, or every integration time is (then a negative budget makes the program infeasible,
  which is a valid outcome with the same result).
\<close>

theorem select_obs_nothing_fits:
  assumes len: "length ck \<le> length t0"
    and big: "\<forall>j<length ck. maxTime < t0 ! j"
    and dom: "0 \<le> maxTime \<or> (\<forall>j<length ck. 0 \<le> t0 ! j)"
  shows "select_obs t0 maxTime ck = Inr (0, [])"
proof -
  let ?n = "length ck"
  let ?c = "take ?n t0"
  have nonneg: "\<forall>j<?n. 0 \<le> t0 ! j"
    using dom big by (auto intro: less_imp_le order_trans)
  have lc: "?n \<le> length ?c" using len by simp
  have only_empty: "selected x = []" if bin: "binary_vector ?n x" and f: "dot ?c x \<le> maxTime" for x
  proof (rule ccontr)
    assume ne: "selected x \<noteq> []"
    from bin have lx: "length x = ?n" by (simp add: binary_vector_def)
    have sub: "set (selected x) \<subseteq> {..<?n}" by (auto simp: set_selected lx)
    have "dot ?c x = (\<Sum>j\<in>set (selected x). t0 ! j)"
      using dot_selected [OF bin lc] sum_take [OF sub, of t0] by simp
    moreover have "maxTime < (\<Sum>j\<in>set (selected x). t0 ! j)"
      using ne sub big nonneg by (intro sum_exceeds) auto
    ultimately show False using f by simp
  qed
  show ?thesis
  proof (cases "\<exists>y. binary_vector ?n y \<and> dot ?c y \<le> maxTime")
    case True
    then obtain y where y: "binary_vector ?n y" "dot ?c y \<le> maxTime" by blast
    from Solve_feasible [OF y] obtain xs where
      S: "Solve ?c maxTime ck = (OPTIMAL, xs)" and bin: "binary_vector ?n xs"
      and feas: "dot ?c xs \<le> maxTime"
      by blast
    have e: "selected xs = []" using bin feas by (rule only_empty)
    have "dot ck xs = (\<Sum>j\<in>set (selected xs). ck ! j)"
      using bin by (rule dot_selected) simp
    with e have "dot ck xs = 0" by simp
    with select_obs_Solve [OF len S] e show ?thesis by simp
  next
    case False
    then have "Solve ?c maxTime ck = (INFEASIBLE, map (\<lambda>_. 0) ck)"
      by (intro Solve_infeasible) blast
    from select_obs_Solve [OF len this] show ?thesis
      by (simp add: dot_zeros selected_zeros)
  qed
qed

theorem select_obs_nothing_fits_witness:
  "select_obs [1, 2] 0 [3, 4] = Inr (0, [])"
  using select_obs_nothing_fits [of "[3, 4]" "[1, 2]" 0]
  by (simp add: less_Suc_eq numeral_2_eq_2)

section \<open>Properties of the observation-value metric\<close>

text \<open>
  The two cases in which the control flow of \<^verbatim>\<open>find_ck\<close> alone gives \<open>ck[i] = 0\<close>: a
  degenerate band, and a \<open>kmin\<close> that is below none of the six breakpoints.  On every
  other branch \<open>ck[i]\<close> is a sum of results of the quadrature routine.
\<close>

lemma find_ck_star_degenerate:
  "find_ck_star quad sol3 sol4 amin amax s s Cmin pexp Rexp = 0"
  by (simp add: find_ck_star_def Let_def)

lemma find_ck_star_above:
  assumes "k1 amax smin \<le> Cmin / (pexp * Rexp^2)" "k2 amax smax \<le> Cmin / (pexp * Rexp^2)"
    "k3 amax smax \<le> Cmin / (pexp * Rexp^2)" "k4 smax \<le> Cmin / (pexp * Rexp^2)"
    "k5 amax smin \<le> Cmin / (pexp * Rexp^2)" "k6 smin \<le> Cmin / (pexp * Rexp^2)"
  shows "find_ck_star quad sol3 sol4 amin amax smin smax Cmin pexp Rexp = 0"
  using assms by (simp add: find_ck_star_def Let_def not_less)

end
